theory Spec2Isabelle
  imports Main
begin

section \<open>JavaScript values and thrown values\<close>

text \<open>
  The client of \<^verbatim>\<open>index.ts\<close> is one class with a constructor and one method,
  \<^verbatim>\<open>send\<close>. Both work on plain JavaScript data, so the embedding starts with
  the values an event can be made of. An object is the list of its own enumerable
  string-keyed properties in the order the engine enumerates them; an array is the list
  of its elements. Strings are sequences of bytes (the UTF-8 form of well-formed text).
  \<open>JNum\<close> holds the integer-valued Numbers whose decimal numeral is what
  \<^verbatim>\<open>Number.prototype.toString\<close> prints (magnitude below \<open>2^53\<close>); \<open>JNonFinite\<close> stands
  for \<^verbatim>\<open>NaN\<close> and the two infinities. Two kinds of value cannot be serialised:
  a BigInt, and a structure that contains itself. A finite tree cannot contain itself,
  so \<open>JCircular\<close> marks the place where an object or array refers back to one that
  encloses it. Objects with a \<^verbatim>\<open>toJSON\<close> method, getters and functions are outside
  the fragment.
\<close>

datatype jsval =
    JUndefined
  | JNull
  | JBool bool
  | JNum int
  | JNonFinite
  | JBigInt int
  | JStr string
  | JArr "jsval list"
  | JObj "(string \<times> jsval) list"
  | JCircular

text \<open>
  JavaScript can throw any value. \<open>Error m\<close> is \<^verbatim>\<open>new Error(m)\<close>, the only
  kind of error the client makes itself; \<open>TypeError m\<close> is what the serialiser throws;
  \<open>ReferenceError m\<close> is what reading an identifier throws that the host does not
  define; \<open>Foreign x\<close> is a value thrown by a collaborator (the transport, or the
  response's \<^verbatim>\<open>text()\<close>), of a type \<open>'x\<close> the client knows nothing about, so that
  it carries its own identity and message.
\<close>

datatype 'x thrown = Error string | TypeError string | ReferenceError string | Foreign 'x

section \<open>Number and string conversions\<close>

definition digit_char :: "nat \<Rightarrow> char" where
  "digit_char n = ''0123456789abcdef'' ! n"

fun string_of_nat :: "nat \<Rightarrow> string" where
  "string_of_nat n =
     (if n < 10 then [digit_char n] else string_of_nat (n div 10) @ [digit_char (n mod 10)])"

declare string_of_nat.simps [simp del]

definition string_of_int :: "int \<Rightarrow> string" where
  "string_of_int i =
     (if i < 0 then CHR ''-'' # string_of_nat (nat (- i)) else string_of_nat (nat i))"

text \<open>
  \<^verbatim>\<open>QuoteJSONString\<close> of ECMA-262: the two-character escapes, \<^verbatim>\<open>\u00xx\<close> for
  the other control characters, every other byte as it is.
\<close>

definition quote_char :: "char \<Rightarrow> string" where
  "quote_char c =
     (if c = CHR 0x08 then [CHR 0x5C, CHR ''b'']
      else if c = CHR 0x09 then [CHR 0x5C, CHR ''t'']
      else if c = CHR 0x0A then [CHR 0x5C, CHR ''n'']
      else if c = CHR 0x0C then [CHR 0x5C, CHR ''f'']
      else if c = CHR 0x0D then [CHR 0x5C, CHR ''r'']
      else if c = CHR 0x22 then [CHR 0x5C, CHR 0x22]
      else if c = CHR 0x5C then [CHR 0x5C, CHR 0x5C]
      else if (of_char c :: nat) < 32
        then [CHR 0x5C, CHR ''u'', CHR ''0'', CHR ''0'',
              digit_char (of_char c div 16), digit_char (of_char c mod 16)]
      else [c])"

definition QuoteJSONString :: "string \<Rightarrow> string" where
  "QuoteJSONString s = CHR 0x22 # concat (map quote_char s) @ [CHR 0x22]"

fun join :: "string \<Rightarrow> string list \<Rightarrow> string" where
  "join sep [] = []"
| "join sep [x] = x"
| "join sep (x # y # ys) = x @ sep @ join sep (y # ys)"

section \<open>JSON.stringify\<close>

text \<open>
  \<open>sequence\<close> runs a list of computations from left to right and stops at the first
  one that throws.
\<close>

fun sequence :: "('e + 'a) list \<Rightarrow> 'e + 'a list" where
  "sequence [] = Inr []"
| "sequence (Inl e # _) = Inl e"
| "sequence (Inr a # rs) = (case sequence rs of Inl e \<Rightarrow> Inl e | Inr as \<Rightarrow> Inr (a # as))"

text \<open>
  \<^verbatim>\<open>JSON.stringify(value)\<close> with no replacer and no indentation
  (\<^verbatim>\<open>SerializeJSONProperty\<close>). The result is a string, or \<^verbatim>\<open>undefined\<close>
  (\<open>None\<close>) for a value that has no JSON form; an \<^verbatim>\<open>undefined\<close> element
  of an array is written \<^verbatim>\<open>null\<close>, an \<^verbatim>\<open>undefined\<close> property of an object is
  left out.
\<close>

fun JSON_stringify :: "jsval \<Rightarrow> 'x thrown + string option" where
  "JSON_stringify JUndefined = Inr None"
| "JSON_stringify JNull = Inr (Some ''null'')"
| "JSON_stringify (JBool b) = Inr (Some (if b then ''true'' else ''false''))"
| "JSON_stringify (JNum n) = Inr (Some (string_of_int n))"
| "JSON_stringify JNonFinite = Inr (Some ''null'')"
| "JSON_stringify (JBigInt n) = Inl (TypeError ''Do not know how to serialize a BigInt'')"
| "JSON_stringify (JStr s) = Inr (Some (QuoteJSONString s))"
| "JSON_stringify (JArr xs) =
     (case sequence (map JSON_stringify xs) of
        Inl e \<Rightarrow> Inl e
      | Inr rs \<Rightarrow>
          Inr (Some (''['' @ join '','' (map (\<lambda>r. (case r of None \<Rightarrow> ''null'' | Some t \<Rightarrow> t)) rs)
                     @ '']'')))"
| "JSON_stringify (JObj kvs) =
     (case sequence (map (\<lambda>(k, v). (case JSON_stringify v of
                                         Inl e \<Rightarrow> Inl e
                                       | Inr r \<Rightarrow> Inr (k, r))) kvs) of
        Inl e \<Rightarrow> Inl e
      | Inr rs \<Rightarrow>
          Inr (Some (''{'' @ join '',''
                       (concat (map (\<lambda>(k, r). (case r of
                                                   None \<Rightarrow> []
                                                 | Some t \<Rightarrow> [QuoteJSONString k @ '':'' @ t])) rs))
                     @ ''}'')))"
| "JSON_stringify JCircular = Inl (TypeError ''Converting circular structure to JSON'')"

definition Array_isArray :: "jsval \<Rightarrow> bool" where
  "Array_isArray v = (case v of JArr _ \<Rightarrow> True | _ \<Rightarrow> False)"

section \<open>The transport and the client\<close>

text \<open>
  A request is what \<^verbatim>\<open>send\<close> hands to the fetch function: the URL and the
  options object (method, headers in the order written, body). A response exposes what
  the client reads: \<^verbatim>\<open>ok\<close>, \<^verbatim>\<open>status\<close>, \<^verbatim>\<open>statusText\<close>, and the outcome
  of awaiting \<^verbatim>\<open>text()\<close>, which is the body text or a thrown value.
\<close>

record request =
  req_url :: string
  req_method :: string
  req_headers :: "(string \<times> string) list"
  req_body :: "string option"

record 'x response =
  ok :: bool
  status :: nat
  statusText :: string
  body_text :: "'x thrown + string"

text \<open>
  The calls the client makes on its collaborators are recorded in a trace, oldest first:
  a call of the fetch function with its request, and a call of \<^verbatim>\<open>text()\<close> on a
  response. A transport answers a request with a response or a thrown value (a rejected
  promise, or a synchronous throw inside the awaited call); its answer may depend on
  everything that happened before.
\<close>

datatype 'x effect = Fetch request | ReadText "'x response"

type_synonym 'x transport = "request \<Rightarrow> 'x effect list \<Rightarrow> 'x thrown + 'x response"

record 'x NexusClientOptions =
  opt_url :: "string option"
  opt_token :: "string option"
  opt_fetch :: "'x transport option"

record 'x NexusClient =
  url :: string
  token :: string
  fetchFn :: "'x transport"

text \<open>
  The constructor. A property the caller left out reads as \<^verbatim>\<open>undefined\<close>
  (\<open>None\<close>), which is falsy like the empty string. \<open>global_fetch\<close> is the
  \<^verbatim>\<open>fetch\<close> of the host environment, \<open>None\<close> on a host that defines none (Node
  before version 18). The source evaluates \<^verbatim>\<open>options.fetch || fetch\<close> first: when
  the options name a fetch function the global one is not read; when they name none, the
  identifier \<^verbatim>\<open>fetch\<close> is read, and on a host without it that throws a
  \<^verbatim>\<open>ReferenceError\<close> before the URL and the token are looked at. The fields are
  assigned before the check in the source; an object whose constructor throws is never
  seen, so the model builds the client after the check, and the last branch of the inner
  case is never reached. The trace goes in and comes out, so that what the constructor
  does to it can be stated.
\<close>

definition falsy :: "string option \<Rightarrow> bool" where
  "falsy s = (case s of None \<Rightarrow> True | Some v \<Rightarrow> v = [])"

definition NexusClient_new ::
  "'x transport option \<Rightarrow> 'x NexusClientOptions \<Rightarrow> 'x effect list
     \<Rightarrow> ('x thrown + 'x NexusClient) \<times> 'x effect list" where
  "NexusClient_new global_fetch options tr =
     (case (case opt_fetch options of Some f \<Rightarrow> Some f | None \<Rightarrow> global_fetch) of
        None \<Rightarrow> (Inl (ReferenceError ''fetch is not defined''), tr)
      | Some fetchFn' \<Rightarrow>
          if falsy (opt_url options) \<or> falsy (opt_token options)
          then (Inl (Error ''NexusClient requires both `url` and `token`.''), tr)
          else (case (opt_url options, opt_token options) of
                  (Some u, Some t) \<Rightarrow> (Inr \<lparr>url = u, token = t, fetchFn = fetchFn'\<rparr>, tr)
                | _ \<Rightarrow> (Inl (Error ''NexusClient requires both `url` and `token`.''), tr)))"

text \<open>
  \<^verbatim>\<open>send\<close> runs in a state: the client object it is called on, the value the
  caller passed as \<^verbatim>\<open>events\<close>, and the trace. It returns how its promise settles
  (\<open>Inr\<close> resolved, \<open>Inl\<close> rejected) and the state it leaves behind.
  \<open>post_request\<close> is the pair of arguments of the call of the fetch function: the URL
  and the options object with its method, its two headers and its body.
\<close>

record 'x state =
  this :: "'x NexusClient"
  events :: jsval
  trace :: "'x effect list"

definition post_request :: "'x NexusClient \<Rightarrow> string option \<Rightarrow> request" where
  "post_request c body =
     \<lparr>req_url = url c,
      req_method = ''POST'',
      req_headers = [(''Content-Type'', ''application/json''),
                     (''Authorization'', ''Bearer '' @ token c)],
      req_body = body\<rparr>"

definition send :: "'x state \<Rightarrow> ('x thrown + 'x response) \<times> 'x state" where
  "send s =
     (let payload = (if Array_isArray (events s) then events s else JArr [events s]) in
      case JSON_stringify payload of
        Inl e \<Rightarrow> (Inl e, s)
      | Inr body \<Rightarrow>
          (let req = post_request (this s) body;
               s1 = s\<lparr>trace := trace s @ [Fetch req]\<rparr>
           in case fetchFn (this s) req (trace s) of
                Inl e \<Rightarrow> (Inl e, s1)
              | Inr response \<Rightarrow>
                  if \<not> ok response then
                    (let s2 = s1\<lparr>trace := trace s1 @ [ReadText response]\<rparr> in
                     case body_text response of
                       Inl e \<Rightarrow> (Inl e, s2)
                     | Inr errorBody \<Rightarrow>
                         (Inl (Error (''Failed to send event(s): ''
                                      @ string_of_nat (status response) @ '' ''
                                      @ statusText response @ '' - '' @ errorBody)), s2))
                  else (Inr response, s1)))"

section \<open>What a call of send adds to the trace\<close>

definition new_effects :: "'x state \<Rightarrow> 'x effect list" where
  "new_effects s = drop (length (trace s)) (trace (snd (send s)))"

fun requests :: "'x effect list \<Rightarrow> request list" where
  "requests [] = []"
| "requests (Fetch r # es) = r # requests es"
| "requests (ReadText _ # es) = requests es"

text \<open>
  A value is serialisable when no BigInt and no back reference occurs in it.
\<close>

fun serializable :: "jsval \<Rightarrow> bool" where
  "serializable (JBigInt n) = False"
| "serializable JCircular = False"
| "serializable (JArr xs) = list_all serializable xs"
| "serializable (JObj kvs) = list_all (\<lambda>(k, v). serializable v) kvs"
| "serializable _ = True"


section \<open>Auxiliary facts\<close>

lemma sequence_all_Inr:
  "(\<And>x. x \<in> set xs \<Longrightarrow> \<exists>r. f x = Inr r) \<Longrightarrow> \<exists>rs. sequence (map f xs) = Inr rs"
proof (induction xs)
  case Nil
  show ?case by simp
next
  case (Cons x xs)
  from Cons.prems obtain r where r: "f x = Inr r" by auto
  from Cons obtain rs where "sequence (map f xs) = Inr rs" by auto
  with r show ?case by simp
qed

text \<open>Serialising a serialisable value never throws.\<close>

lemma serializable_stringify:
  "serializable v \<Longrightarrow> \<exists>r. (JSON_stringify v :: 'x thrown + string option) = Inr r"
proof (induction v)
  case (JArr xs)
  have "\<exists>rs. sequence (map (JSON_stringify :: jsval \<Rightarrow> 'x thrown + string option) xs) = Inr rs"
    using JArr by (intro sequence_all_Inr) (auto simp: list_all_iff)
  then show ?case by auto
next
  case (JObj kvs)
  have "\<exists>rs. sequence (map (\<lambda>(k, v). (case (JSON_stringify v :: 'x thrown + string option) of
                                         Inl e \<Rightarrow> Inl e
                                       | Inr r \<Rightarrow> Inr (k, r))) kvs) = Inr rs"
  proof (intro sequence_all_Inr)
    fix p assume p: "p \<in> set kvs"
    obtain k v where kv: "p = (k, v)" by (cases p)
    with p JObj.prems have "serializable v" by (auto simp: list_all_iff)
    moreover from p kv have "v \<in> Basic_BNFs.snds p" by simp
    ultimately obtain r where "(JSON_stringify v :: 'x thrown + string option) = Inr r"
      using JObj.IH p by blast
    with kv show "\<exists>r. (case p of (k, v) \<Rightarrow>
                         (case (JSON_stringify v :: 'x thrown + string option) of
                            Inl e \<Rightarrow> Inl e
                          | Inr r \<Rightarrow> Inr (k, r))) = Inr r" by simp
  qed
  then show ?case by auto
qed simp_all

text \<open>An array always has a JSON form: the result is a string, never \<^verbatim>\<open>undefined\<close>.\<close>

lemma stringify_array_Some:
  "(JSON_stringify (JArr xs) :: 'x thrown + string option) = Inr r \<Longrightarrow> \<exists>b. r = Some b"
  by (auto split: sum.splits)

lemma serializable_array_body:
  assumes "list_all serializable xs"
  shows "\<exists>b. (JSON_stringify (JArr xs) :: 'x thrown + string option) = Inr (Some b)"
proof -
  from assms have "serializable (JArr xs)" by simp
  then obtain r where r: "(JSON_stringify (JArr xs) :: 'x thrown + string option) = Inr r"
    using serializable_stringify by blast
  with stringify_array_Some [OF r] show ?thesis by auto
qed

text \<open>The payload of a call is an array, so serialisable event data always has a body.\<close>

lemma serializable_payload_body:
  assumes "serializable v"
  shows "\<exists>b. (JSON_stringify (if Array_isArray v then v else JArr [v])
               :: 'x thrown + string option) = Inr (Some b)"
proof (cases "Array_isArray v")
  case True
  then obtain xs where v: "v = JArr xs" by (cases v) (simp_all add: Array_isArray_def)
  with assms have "list_all serializable xs" by simp
  from serializable_array_body [OF this] v True show ?thesis by simp
next
  case False
  from assms have "list_all serializable [v]" by simp
  from serializable_array_body [OF this] False show ?thesis by simp
qed

text \<open>The state after a call is the state before it with the new effects appended.\<close>

lemma send_state:
  "snd (send s) = s\<lparr>trace := trace s @ new_effects s\<rparr>"
  unfolding new_effects_def send_def Let_def
  by (auto split: sum.splits)

text \<open>No request when serialisation throws, one request otherwise.\<close>

lemma requests_new_effects:
  fixes s :: "'x state"
  shows "requests (new_effects s) =
     (case (JSON_stringify (if Array_isArray (events s) then events s else JArr [events s])
             :: 'x thrown + string option) of
        Inl e \<Rightarrow> []
      | Inr body \<Rightarrow> [post_request (this s) body])"
  unfolding new_effects_def send_def Let_def
  by (auto split: sum.splits)

lemma string_of_nat_404: "string_of_nat 404 = ''404''"
  by (simp add: string_of_nat.simps digit_char_def)

text \<open>
  The four ways a call can go: serialisation throws; the transport rejects; the response
  is ok; the response is not ok.
\<close>

lemma send_serialisation_throws:
  assumes "JSON_stringify (if Array_isArray (events s) then events s else JArr [events s])
             = Inl e"
  shows "send s = (Inl e, s)"
  by (simp only: send_def Let_def assms sum.case)

lemma send_transport_rejects:
  fixes s :: "'x state"
  assumes "(JSON_stringify (if Array_isArray (events s) then events s else JArr [events s])
             :: 'x thrown + string option) = Inr body"
    and "fetchFn (this s) (post_request (this s) body) (trace s) = Inl e"
  shows "send s = (Inl e, s\<lparr>trace := trace s @ [Fetch (post_request (this s) body)]\<rparr>)"
  by (simp only: send_def Let_def assms sum.case)

lemma send_response_ok:
  fixes s :: "'x state"
  assumes "(JSON_stringify (if Array_isArray (events s) then events s else JArr [events s])
             :: 'x thrown + string option) = Inr body"
    and "fetchFn (this s) (post_request (this s) body) (trace s) = Inr r"
    and "ok r"
  shows "send s = (Inr r, s\<lparr>trace := trace s @ [Fetch (post_request (this s) body)]\<rparr>)"
  using assms(3) by (simp only: send_def Let_def assms(1,2) sum.case) simp

lemma send_response_not_ok:
  fixes s :: "'x state"
  assumes "(JSON_stringify (if Array_isArray (events s) then events s else JArr [events s])
             :: 'x thrown + string option) = Inr body"
    and "fetchFn (this s) (post_request (this s) body) (trace s) = Inr r"
    and "\<not> ok r"
  shows "send s =
     ((case body_text r of
         Inl e \<Rightarrow> Inl e
       | Inr errorBody \<Rightarrow>
           Inl (Error (''Failed to send event(s): '' @ string_of_nat (status r) @ '' ''
                       @ statusText r @ '' - '' @ errorBody))),
      s\<lparr>trace := trace s @ [Fetch (post_request (this s) body), ReadText r]\<rparr>)"
  using assms(3) by (simp only: send_def Let_def assms(1,2) sum.case) (simp split: sum.splits)

section \<open>Properties of the client\<close>

text \<open>
  C1. Each call of \<^verbatim>\<open>send\<close> with event data issues exactly one request, and its body
  is the JSON text of the batch: for a single event \<open>e\<close> (a serialisable value that is
  not an array) the body is the serialisation of the one-element array \<open>[e]\<close>; for a
  sequence \<open>es\<close> of serialisable events, the empty one included, the body is the
  serialisation of \<open>es\<close> as it stands, in the same order and with repeated elements kept.
  Events are JSON-serialisable values by the data model; what happens when serialisation
  throws is the subject of C6.
\<close>

theorem send_issues_one_batch_request:
  fixes s :: "'x state"
  shows "(serializable e \<and> \<not> Array_isArray e \<longrightarrow>
           (\<exists>b. (JSON_stringify (JArr [e]) :: 'x thrown + string option) = Inr (Some b) \<and>
                requests (new_effects (s\<lparr>events := e\<rparr>)) = [post_request (this s) (Some b)]))
       \<and> (list_all serializable es \<longrightarrow>
           (\<exists>b. (JSON_stringify (JArr es) :: 'x thrown + string option) = Inr (Some b) \<and>
                requests (new_effects (s\<lparr>events := JArr es\<rparr>)) = [post_request (this s) (Some b)]))"
proof (intro conjI impI)
  assume e: "serializable e \<and> \<not> Array_isArray e"
  then have "list_all serializable [e]" by simp
  then obtain b where b: "(JSON_stringify (JArr [e]) :: 'x thrown + string option) = Inr (Some b)"
    using serializable_array_body by blast
  have "requests (new_effects (s\<lparr>events := e\<rparr>)) = [post_request (this s) (Some b)]"
    using e b by (simp add: requests_new_effects del: JSON_stringify.simps)
  with b show "\<exists>b. (JSON_stringify (JArr [e]) :: 'x thrown + string option) = Inr (Some b) \<and>
                requests (new_effects (s\<lparr>events := e\<rparr>)) = [post_request (this s) (Some b)]"
    by blast
next
  assume es: "list_all serializable es"
  then obtain b where b: "(JSON_stringify (JArr es) :: 'x thrown + string option) = Inr (Some b)"
    using serializable_array_body by blast
  have "requests (new_effects (s\<lparr>events := JArr es\<rparr>)) = [post_request (this s) (Some b)]"
    using b by (simp add: requests_new_effects Array_isArray_def del: JSON_stringify.simps)
  with b show "\<exists>b. (JSON_stringify (JArr es) :: 'x thrown + string option) = Inr (Some b) \<and>
                requests (new_effects (s\<lparr>events := JArr es\<rparr>)) = [post_request (this s) (Some b)]"
    by blast
qed

text \<open>
  The theorem at a single event and at a batch with a repeated element, out of order.
\<close>

theorem send_issues_one_batch_request_witness:
  "serializable (JObj [(''type'', JStr ''x'')]) \<and> \<not> Array_isArray (JObj [(''type'', JStr ''x'')])
   \<and> map req_body (requests (new_effects
        \<lparr>this = \<lparr>url = ''u'', token = ''t'',
                  fetchFn = (\<lambda>r h. Inl (Foreign ''down'') :: string thrown + string response)\<rparr>,
         events = JObj [(''type'', JStr ''x'')], trace = []\<rparr>))
      = [Some (''[{'' @ [CHR 0x22] @ ''type'' @ [CHR 0x22] @ '':'' @ [CHR 0x22] @ ''x'' @ [CHR 0x22] @ ''}]'')]
   \<and> list_all serializable [JNum 2, JNum 1, JNum 2]
   \<and> map req_body (requests (new_effects
        \<lparr>this = \<lparr>url = ''u'', token = ''t'',
                  fetchFn = (\<lambda>r h. Inl (Foreign ''down'') :: string thrown + string response)\<rparr>,
         events = JArr [JNum 2, JNum 1, JNum 2], trace = []\<rparr>))
      = [Some ''[2,1,2]'']"
  using send_issues_one_batch_request
    [of "JObj [(''type'', JStr ''x'')]"
        "\<lparr>this = \<lparr>url = ''u'', token = ''t'',
                  fetchFn = (\<lambda>r h. Inl (Foreign ''down'') :: string thrown + string response)\<rparr>,
         events = JNull, trace = []\<rparr>"
        "[JNum 2, JNum 1, JNum 2]"]
  by (simp add: Array_isArray_def QuoteJSONString_def quote_char_def string_of_int_def
        string_of_nat.simps digit_char_def post_request_def)

text \<open>
  C2. The claim as it stands fails where no fetch function is to be had: with none in
  the options and none on the host, construction throws a \<^verbatim>\<open>ReferenceError\<close>, for a
  valid URL and token (so it does not succeed) and for an empty URL alike (so the error
  is not the configuration error).
\<close>

theorem constructor_without_fetch_counterexample:
  "fst (NexusClient_new (None :: string transport option)
          \<lparr>opt_url = Some ''https://api.example.com'', opt_token = Some ''valid-token'',
           opt_fetch = None\<rparr> [])
     = Inl (ReferenceError ''fetch is not defined'')
   \<and> fst (NexusClient_new (None :: string transport option)
          \<lparr>opt_url = Some '''', opt_token = Some ''token'', opt_fetch = None\<rparr> [])
     \<noteq> Inl (Error ''NexusClient requires both `url` and `token`.'')"
  by (simp add: NexusClient_new_def)

text \<open>
  C2, amended. Let a fetch function \<open>f\<close> be available: named in the options, or, when the
  options name none, defined by the host. Then construction with a URL and a token that
  are both present and non-empty succeeds, yields a client holding exactly that URL,
  that token and \<open>f\<close>, and leaves the trace as it was: no call of the transport, no
  network activity. When the URL or the token is missing or empty, construction throws,
  in the constructor itself and with the trace untouched, the configuration error
  \<^verbatim>\<open>Error("NexusClient requires both `url` and `token`.")\<close>. When no fetch function is
  available, construction throws a \<^verbatim>\<open>ReferenceError\<close> whatever the URL and the token
  are, again with the trace untouched.
\<close>

theorem constructor_validates_configuration:
  fixes g :: "'x transport option"
  shows "((opt_fetch opts = Some f \<or> (opt_fetch opts = None \<and> g = Some f)) \<and>
          opt_url opts = Some u \<and> opt_token opts = Some t \<and> u \<noteq> [] \<and> t \<noteq> [] \<longrightarrow>
            NexusClient_new g opts tr = (Inr \<lparr>url = u, token = t, fetchFn = f\<rparr>, tr))
       \<and> ((opt_fetch opts = Some f \<or> (opt_fetch opts = None \<and> g = Some f)) \<and>
          (opt_url opts = None \<or> opt_url opts = Some [] \<or>
           opt_token opts = None \<or> opt_token opts = Some []) \<longrightarrow>
            NexusClient_new g opts tr =
              (Inl (Error ''NexusClient requires both `url` and `token`.''), tr))
       \<and> (opt_fetch opts = None \<and> g = None \<longrightarrow>
            NexusClient_new g opts tr = (Inl (ReferenceError ''fetch is not defined''), tr))"
  unfolding NexusClient_new_def falsy_def
  by (auto split: option.splits)

text \<open>
  The theorem at a valid configuration on a host with a fetch function, at an empty URL
  and at a missing token with a fetch function in the options, and at a valid
  configuration where no fetch function is to be had.
\<close>

theorem constructor_validates_configuration_witness:
  "NexusClient_new (Some (\<lambda>r h. Inl (Foreign ''global'')))
          \<lparr>opt_url = Some ''https://api.example.com'', opt_token = Some ''valid-token'',
           opt_fetch = None\<rparr> ([] :: string effect list)
     = (Inr \<lparr>url = ''https://api.example.com'', token = ''valid-token'',
             fetchFn = (\<lambda>r h. Inl (Foreign ''global''))\<rparr>, [])
   \<and> NexusClient_new None
          \<lparr>opt_url = Some '''', opt_token = Some ''token'',
           opt_fetch = Some (\<lambda>r h. Inl (Foreign ''custom''))\<rparr>
          ([] :: string effect list)
     = (Inl (Error ''NexusClient requires both `url` and `token`.''), [])
   \<and> NexusClient_new None
          \<lparr>opt_url = Some ''https://api.example.com'', opt_token = None,
           opt_fetch = Some (\<lambda>r h. Inl (Foreign ''custom''))\<rparr>
          ([] :: string effect list)
     = (Inl (Error ''NexusClient requires both `url` and `token`.''), [])
   \<and> NexusClient_new None
          \<lparr>opt_url = Some ''https://api.example.com'', opt_token = Some ''valid-token'',
           opt_fetch = None\<rparr> ([] :: string effect list)
     = (Inl (ReferenceError ''fetch is not defined''), [])"
  using
    constructor_validates_configuration
      [of "\<lparr>opt_url = Some ''https://api.example.com'', opt_token = Some ''valid-token'',
             opt_fetch = None\<rparr>"
          "\<lambda>r h. Inl (Foreign ''global'')"
          "Some (\<lambda>r h. Inl (Foreign ''global''))"
          "''https://api.example.com''" "''valid-token''" "[] :: string effect list"]
    constructor_validates_configuration
      [of "\<lparr>opt_url = Some '''', opt_token = Some ''token'',
             opt_fetch = Some (\<lambda>r h. Inl (Foreign ''custom''))\<rparr>"
          "\<lambda>r h. Inl (Foreign ''custom'')" "None"
          "[]" "[]" "[] :: string effect list"]
    constructor_validates_configuration
      [of "\<lparr>opt_url = Some ''https://api.example.com'', opt_token = None,
             opt_fetch = Some (\<lambda>r h. Inl (Foreign ''custom''))\<rparr>"
          "\<lambda>r h. Inl (Foreign ''custom'')" "None"
          "[]" "[]" "[] :: string effect list"]
    constructor_validates_configuration
      [of "\<lparr>opt_url = Some ''https://api.example.com'', opt_token = Some ''valid-token'',
             opt_fetch = None\<rparr>"
          "\<lambda>r h. Inl (Foreign ''none'')" "None"
          "[]" "[]" "[] :: string effect list"]
  by simp

text \<open>
  C3. When the transport answers with a response whose \<^verbatim>\<open>ok\<close> is false,
  \<^verbatim>\<open>send\<close> calls \<^verbatim>\<open>text()\<close> on it and rejects with the delivery error
  \<^verbatim>\<open>Error("Failed to send event(s): <status> <statusText> - <body>")\<close>; with status
  404, status text \<^verbatim>\<open>Not Found\<close> and body \<^verbatim>\<open>missing\<close> the message is exactly
  \<^verbatim>\<open>Failed to send event(s): 404 Not Found - missing\<close>. When \<^verbatim>\<open>text()\<close> itself
  fails, what it threw is the rejection.
\<close>

theorem send_not_ok_fails_with_delivery_error:
  fixes s :: "'x state"
  assumes "(JSON_stringify (if Array_isArray (events s) then events s else JArr [events s])
             :: 'x thrown + string option) = Inr body"
    and "fetchFn (this s) (post_request (this s) body) (trace s) = Inr r"
    and "\<not> ok r"
  shows "new_effects s = [Fetch (post_request (this s) body), ReadText r]
       \<and> fst (send s) =
           (case body_text r of
              Inl e \<Rightarrow> Inl e
            | Inr errorBody \<Rightarrow>
                Inl (Error (''Failed to send event(s): '' @ string_of_nat (status r) @ '' ''
                            @ statusText r @ '' - '' @ errorBody)))
       \<and> (status r = 404 \<and> statusText r = ''Not Found'' \<and> body_text r = Inr ''missing'' \<longrightarrow>
            fst (send s) = Inl (Error ''Failed to send event(s): 404 Not Found - missing''))"
  by (simp add: new_effects_def send_response_not_ok [OF assms] string_of_nat_404)

text \<open>
  The theorem at a 404 response with body \<^verbatim>\<open>missing\<close>, and at a response whose
  body cannot be read.
\<close>

theorem send_not_ok_fails_with_delivery_error_witness:
  "fst (send \<lparr>this = \<lparr>url = ''u'', token = ''t'',
                      fetchFn = (\<lambda>q h. Inr \<lparr>ok = False, status = 404, statusText = ''Not Found'',
                                              body_text = Inr ''missing''\<rparr>)\<rparr>,
             events = JObj [(''type'', JStr ''test'')], trace = ([] :: string effect list)\<rparr>)
     = Inl (Error ''Failed to send event(s): 404 Not Found - missing'')
   \<and> fst (send \<lparr>this = \<lparr>url = ''u'', token = ''t'',
                      fetchFn = (\<lambda>q h. Inr \<lparr>ok = False, status = 200, statusText = ''OK'',
                                              body_text = Inl (Foreign ''stream broke'')\<rparr>)\<rparr>,
             events = JArr [], trace = ([] :: string effect list)\<rparr>)
     = Inl (Foreign ''stream broke'')"
  using
    send_not_ok_fails_with_delivery_error
      [of "\<lparr>this = \<lparr>url = ''u'', token = ''t'',
                      fetchFn = (\<lambda>q h. Inr \<lparr>ok = False, status = 404, statusText = ''Not Found'',
                                              body_text = Inr ''missing''\<rparr>)\<rparr>,
             events = JObj [(''type'', JStr ''test'')], trace = ([] :: string effect list)\<rparr>"
          "Some (''[{'' @ [CHR 0x22] @ ''type'' @ [CHR 0x22] @ '':'' @ [CHR 0x22] @ ''test''
                 @ [CHR 0x22] @ ''}]'')"
          "\<lparr>ok = False, status = 404, statusText = ''Not Found'', body_text = Inr ''missing''\<rparr>"]
    send_not_ok_fails_with_delivery_error
      [of "\<lparr>this = \<lparr>url = ''u'', token = ''t'',
                      fetchFn = (\<lambda>q h. Inr \<lparr>ok = False, status = 200, statusText = ''OK'',
                                              body_text = Inl (Foreign ''stream broke'')\<rparr>)\<rparr>,
             events = JArr [], trace = ([] :: string effect list)\<rparr>"
          "Some ''[]''"
          "\<lparr>ok = False, status = 200, statusText = ''OK'', body_text = Inl (Foreign ''stream broke'')\<rparr>"]
  by (simp add: Array_isArray_def QuoteJSONString_def quote_char_def string_of_nat_404)

text \<open>
  C4. Every request \<^verbatim>\<open>send\<close> issues is a POST to the client's URL with exactly the two
  headers \<^verbatim>\<open>Content-Type: application/json\<close> and \<^verbatim>\<open>Authorization: Bearer <token>\<close>.
  In particular a client constructed with the URL \<^verbatim>\<open>https://api.test/events\<close> and the
  token \<^verbatim>\<open>abc\<close> that sends \<^verbatim>\<open>{type: "x"}\<close> issues one POST to that URL with those
  headers and the body \<^verbatim>\<open>[{"type":"x"}]\<close>, whatever the transport and the trace so far.
\<close>

theorem send_request_shape:
  fixes s :: "'x state" and f :: "'x transport" and g :: "'x transport option"
  shows "(\<forall>q \<in> set (requests (new_effects s)).
            req_method q = ''POST'' \<and> req_url q = url (this s) \<and>
            req_headers q = [(''Content-Type'', ''application/json''),
                             (''Authorization'', ''Bearer '' @ token (this s))])
       \<and> (\<exists>c. NexusClient_new g \<lparr>opt_url = Some ''https://api.test/events'',
                                   opt_token = Some ''abc'', opt_fetch = Some f\<rparr> tr = (Inr c, tr)
              \<and> requests (new_effects \<lparr>this = c, events = JObj [(''type'', JStr ''x'')],
                                       trace = tr\<rparr>)
                = [\<lparr>req_url = ''https://api.test/events'',
                    req_method = ''POST'',
                    req_headers = [(''Content-Type'', ''application/json''),
                                   (''Authorization'', ''Bearer abc'')],
                    req_body = Some (''[{'' @ [CHR 0x22] @ ''type'' @ [CHR 0x22] @ '':''
                                     @ [CHR 0x22] @ ''x'' @ [CHR 0x22] @ ''}]'')\<rparr>])"
proof (rule conjI)
  show "\<forall>q \<in> set (requests (new_effects s)).
            req_method q = ''POST'' \<and> req_url q = url (this s) \<and>
            req_headers q = [(''Content-Type'', ''application/json''),
                             (''Authorization'', ''Bearer '' @ token (this s))]"
  proof
  fix q assume "q \<in> set (requests (new_effects s))"
  then obtain body where "q = post_request (this s) body"
    by (auto simp: requests_new_effects split: sum.splits simp del: JSON_stringify.simps)
  then show "req_method q = ''POST'' \<and> req_url q = url (this s) \<and>
             req_headers q = [(''Content-Type'', ''application/json''),
                              (''Authorization'', ''Bearer '' @ token (this s))]"
    by (simp add: post_request_def)
  qed
next
  show "\<exists>c. NexusClient_new g \<lparr>opt_url = Some ''https://api.test/events'',
                                   opt_token = Some ''abc'', opt_fetch = Some f\<rparr> tr = (Inr c, tr)
              \<and> requests (new_effects \<lparr>this = c, events = JObj [(''type'', JStr ''x'')],
                                       trace = tr\<rparr>)
                = [\<lparr>req_url = ''https://api.test/events'',
                    req_method = ''POST'',
                    req_headers = [(''Content-Type'', ''application/json''),
                                   (''Authorization'', ''Bearer abc'')],
                    req_body = Some (''[{'' @ [CHR 0x22] @ ''type'' @ [CHR 0x22] @ '':''
                                     @ [CHR 0x22] @ ''x'' @ [CHR 0x22] @ ''}]'')\<rparr>]"
    by (simp add: NexusClient_new_def falsy_def requests_new_effects Array_isArray_def
          QuoteJSONString_def quote_char_def post_request_def)
qed

text \<open>
  The theorem at a client whose call does issue a request.
\<close>

theorem send_request_shape_witness:
  "requests (new_effects
      \<lparr>this = \<lparr>url = ''https://custom.api.com/webhook'', token = ''custom-token-123'',
                fetchFn = (\<lambda>q h. Inl (Foreign ''down'') :: string thrown + string response)\<rparr>,
       events = JArr [], trace = []\<rparr>) \<noteq> []
   \<and> list_all (\<lambda>q. req_method q = ''POST'' \<and> req_url q = ''https://custom.api.com/webhook'' \<and>
                   req_headers q = [(''Content-Type'', ''application/json''),
                                    (''Authorization'', ''Bearer custom-token-123'')])
        (requests (new_effects
          \<lparr>this = \<lparr>url = ''https://custom.api.com/webhook'', token = ''custom-token-123'',
                    fetchFn = (\<lambda>q h. Inl (Foreign ''down'') :: string thrown + string response)\<rparr>,
           events = JArr [], trace = []\<rparr>))"
proof -
  let ?s = "\<lparr>this = \<lparr>url = ''https://custom.api.com/webhook'', token = ''custom-token-123'',
                fetchFn = (\<lambda>q h. Inl (Foreign ''down'') :: string thrown + string response)\<rparr>,
       events = JArr [], trace = []\<rparr>"
  have ne: "requests (new_effects ?s) \<noteq> []"
    by (simp add: requests_new_effects Array_isArray_def)
  from send_request_shape [of ?s]
  have "\<forall>q \<in> set (requests (new_effects ?s)).
            req_method q = ''POST'' \<and> req_url q = ''https://custom.api.com/webhook'' \<and>
            req_headers q = [(''Content-Type'', ''application/json''),
                             (''Authorization'', ''Bearer custom-token-123'')]"
    by simp
  with ne show ?thesis by (simp add: list_all_iff)
qed

text \<open>
  C5. When the transport answers with a response whose \<^verbatim>\<open>ok\<close> is true, \<^verbatim>\<open>send\<close>
  resolves to that very response, and the only thing the call did was the one call of the
  fetch function: \<^verbatim>\<open>text()\<close> is not called, the body is neither read nor parsed.
\<close>

theorem send_ok_returns_response_unread:
  fixes s :: "'x state"
  assumes "(JSON_stringify (if Array_isArray (events s) then events s else JArr [events s])
             :: 'x thrown + string option) = Inr body"
    and "fetchFn (this s) (post_request (this s) body) (trace s) = Inr r"
    and "ok r"
  shows "fst (send s) = Inr r
       \<and> new_effects s = [Fetch (post_request (this s) body)]"
  by (simp add: new_effects_def send_response_ok [OF assms])

text \<open>
  The theorem at a 201 response.
\<close>

theorem send_ok_returns_response_unread_witness:
  "fst (send \<lparr>this = \<lparr>url = ''u'', token = ''t'',
                      fetchFn = (\<lambda>q h. Inr \<lparr>ok = True, status = 201, statusText = ''Created'',
                                              body_text = Inr ''{}''\<rparr>)\<rparr>,
             events = JObj [(''type'', JStr ''test'')], trace = ([] :: string effect list)\<rparr>)
     = Inr \<lparr>ok = True, status = 201, statusText = ''Created'', body_text = Inr ''{}''\<rparr>
   \<and> list_all (\<lambda>e. case e of Fetch q \<Rightarrow> True | ReadText r \<Rightarrow> False)
        (new_effects \<lparr>this = \<lparr>url = ''u'', token = ''t'',
                      fetchFn = (\<lambda>q h. Inr \<lparr>ok = True, status = 201, statusText = ''Created'',
                                              body_text = Inr ''{}''\<rparr>)\<rparr>,
             events = JObj [(''type'', JStr ''test'')], trace = ([] :: string effect list)\<rparr>)"
  using
    send_ok_returns_response_unread
      [of "\<lparr>this = \<lparr>url = ''u'', token = ''t'',
                      fetchFn = (\<lambda>q h. Inr \<lparr>ok = True, status = 201, statusText = ''Created'',
                                              body_text = Inr ''{}''\<rparr>)\<rparr>,
             events = JObj [(''type'', JStr ''test'')], trace = ([] :: string effect list)\<rparr>"
          "Some (''[{'' @ [CHR 0x22] @ ''type'' @ [CHR 0x22] @ '':'' @ [CHR 0x22] @ ''test''
                 @ [CHR 0x22] @ ''}]'')"
          "\<lparr>ok = True, status = 201, statusText = ''Created'', body_text = Inr ''{}''\<rparr>"]
  by (simp add: Array_isArray_def QuoteJSONString_def quote_char_def)

text \<open>
  C6. A failure of the serialiser or of the transport reaches the caller as it is. When
  \<^verbatim>\<open>JSON.stringify\<close> throws \<open>e\<close>, \<^verbatim>\<open>send\<close> rejects with \<open>e\<close> and the state is
  untouched (the transport is never called). When the transport rejects with \<open>e'\<close>
  (a network error, a timeout, an abort), \<^verbatim>\<open>send\<close> rejects with \<open>e'\<close> itself, and
  the call of the fetch function was the only one: no retry, no wrapping.
\<close>

theorem send_propagates_failures_unchanged:
  fixes s :: "'x state"
  shows "((JSON_stringify (if Array_isArray (events s) then events s else JArr [events s])
             :: 'x thrown + string option) = Inl e \<longrightarrow>
            send s = (Inl e, s))
       \<and> ((JSON_stringify (if Array_isArray (events s) then events s else JArr [events s])
             :: 'x thrown + string option) = Inr body \<and>
          fetchFn (this s) (post_request (this s) body) (trace s) = Inl e' \<longrightarrow>
            fst (send s) = Inl e' \<and> new_effects s = [Fetch (post_request (this s) body)])"
proof (rule conjI; rule impI)
  assume "(JSON_stringify (if Array_isArray (events s) then events s else JArr [events s])
             :: 'x thrown + string option) = Inl e"
  then show "send s = (Inl e, s)" by (rule send_serialisation_throws)
next
  assume a: "(JSON_stringify (if Array_isArray (events s) then events s else JArr [events s])
             :: 'x thrown + string option) = Inr body \<and>
          fetchFn (this s) (post_request (this s) body) (trace s) = Inl e'"
  then have "send s = (Inl e', s\<lparr>trace := trace s @ [Fetch (post_request (this s) body)]\<rparr>)"
    using send_transport_rejects [of s body e'] by simp
  then show "fst (send s) = Inl e' \<and> new_effects s = [Fetch (post_request (this s) body)]"
    by (simp add: new_effects_def)
qed

text \<open>
  The theorem at an event that contains itself, and at a transport that rejects with a
  network failure.
\<close>

theorem send_propagates_failures_unchanged_witness:
  "fst (send \<lparr>this = \<lparr>url = ''u'', token = ''t'',
                      fetchFn = (\<lambda>q h. Inl (Foreign ''Network failure''))\<rparr>,
             events = JObj [(''type'', JStr ''circular''), (''self'', JCircular)],
             trace = ([] :: string effect list)\<rparr>)
     = Inl (TypeError ''Converting circular structure to JSON'')
   \<and> new_effects \<lparr>this = \<lparr>url = ''u'', token = ''t'',
                      fetchFn = (\<lambda>q h. Inl (Foreign ''Network failure''))\<rparr>,
             events = JObj [(''type'', JStr ''circular''), (''self'', JCircular)],
             trace = ([] :: string effect list)\<rparr> = []
   \<and> fst (send \<lparr>this = \<lparr>url = ''u'', token = ''t'',
                      fetchFn = (\<lambda>q h. Inl (Foreign ''Network failure''))\<rparr>,
             events = JArr [], trace = ([] :: string effect list)\<rparr>)
     = Inl (Foreign ''Network failure'')
   \<and> length (new_effects \<lparr>this = \<lparr>url = ''u'', token = ''t'',
                      fetchFn = (\<lambda>q h. Inl (Foreign ''Network failure''))\<rparr>,
             events = JArr [], trace = ([] :: string effect list)\<rparr>) = 1"
  using
    send_propagates_failures_unchanged
      [of "\<lparr>this = \<lparr>url = ''u'', token = ''t'',
                      fetchFn = (\<lambda>q h. Inl (Foreign ''Network failure''))\<rparr>,
             events = JObj [(''type'', JStr ''circular''), (''self'', JCircular)],
             trace = ([] :: string effect list)\<rparr>"
          "TypeError ''Converting circular structure to JSON''" "None" "Foreign ''x''"]
    send_propagates_failures_unchanged
      [of "\<lparr>this = \<lparr>url = ''u'', token = ''t'',
                      fetchFn = (\<lambda>q h. Inl (Foreign ''Network failure''))\<rparr>,
             events = JArr [], trace = ([] :: string effect list)\<rparr>"
          "Foreign ''x''" "Some ''[]''" "Foreign ''Network failure''"]
  by (simp add: Array_isArray_def QuoteJSONString_def quote_char_def new_effects_def)

text \<open>
  C7. The request of a call depends on the client and on the event data only. Two calls
  on the same client with structurally equal, serialisable event data (equal values,
  objects with their keys in the same order) each issue exactly one request, and the two
  requests have one and the same body, the serialisation of the batch: whatever happened
  before each call and whatever the transport answers.
\<close>

theorem send_body_deterministic:
  fixes s1 s2 :: "'x state"
  assumes "this s1 = this s2" and "events s1 = events s2" and "serializable (events s1)"
  shows "\<exists>b. (JSON_stringify (if Array_isArray (events s1) then events s1
                                else JArr [events s1])
               :: 'x thrown + string option) = Inr (Some b)
            \<and> requests (new_effects s1)
                = [\<lparr>req_url = url (this s1), req_method = ''POST'',
                    req_headers = [(''Content-Type'', ''application/json''),
                                   (''Authorization'', ''Bearer '' @ token (this s1))],
                    req_body = Some b\<rparr>]
            \<and> requests (new_effects s2)
                = [\<lparr>req_url = url (this s1), req_method = ''POST'',
                    req_headers = [(''Content-Type'', ''application/json''),
                                   (''Authorization'', ''Bearer '' @ token (this s1))],
                    req_body = Some b\<rparr>]"
proof -
  from serializable_payload_body [OF assms(3)]
  obtain b where b: "(JSON_stringify (if Array_isArray (events s1) then events s1
                                      else JArr [events s1])
                       :: 'x thrown + string option) = Inr (Some b)"
    by blast
  have r1: "requests (new_effects s1) = [post_request (this s1) (Some b)]"
    by (simp only: requests_new_effects b sum.case)
  have r2: "requests (new_effects s2) = [post_request (this s1) (Some b)]"
    by (simp only: requests_new_effects assms(1,2) [symmetric] b sum.case)
  from b r1 r2 show ?thesis by (auto simp: post_request_def)
qed

text \<open>
  The theorem at two calls with different histories, to which the transport answers
  differently: both carry the body \<^verbatim>\<open>[{"type":"a","n":7}]\<close>.
\<close>

theorem send_body_deterministic_witness:
  "map req_body (requests (new_effects
      \<lparr>this = \<lparr>url = ''u'', token = ''t'',
                fetchFn = (\<lambda>q h. if h = [] then Inl (Foreign ''first call fails'')
                                  else Inr \<lparr>ok = True, status = 200, statusText = ''OK'',
                                            body_text = Inr ''ok''\<rparr>)\<rparr>,
       events = JObj [(''type'', JStr ''a''), (''n'', JNum 7)],
       trace = ([] :: string effect list)\<rparr>))
     = [Some (''[{'' @ [CHR 0x22] @ ''type'' @ [CHR 0x22] @ '':'' @ [CHR 0x22] @ ''a''
              @ [CHR 0x22] @ '','' @ [CHR 0x22] @ ''n'' @ [CHR 0x22] @ '':7}]'')]
   \<and> map req_body (requests (new_effects
      \<lparr>this = \<lparr>url = ''u'', token = ''t'',
                fetchFn = (\<lambda>q h. if h = [] then Inl (Foreign ''first call fails'')
                                  else Inr \<lparr>ok = True, status = 200, statusText = ''OK'',
                                            body_text = Inr ''ok''\<rparr>)\<rparr>,
       events = JObj [(''type'', JStr ''a''), (''n'', JNum 7)],
       trace = [ReadText \<lparr>ok = False, status = 500, statusText = ''Error'',
                          body_text = Inr ''no''\<rparr>]\<rparr>))
     = [Some (''[{'' @ [CHR 0x22] @ ''type'' @ [CHR 0x22] @ '':'' @ [CHR 0x22] @ ''a''
              @ [CHR 0x22] @ '','' @ [CHR 0x22] @ ''n'' @ [CHR 0x22] @ '':7}]'')]"
proof -
  let ?c = "\<lparr>url = ''u'', token = ''t'',
             fetchFn = (\<lambda>q h. if h = [] then Inl (Foreign ''first call fails'')
                               else Inr \<lparr>ok = True, status = 200, statusText = ''OK'',
                                         body_text = Inr ''ok''\<rparr>)\<rparr> :: string NexusClient"
  let ?e = "JObj [(''type'', JStr ''a''), (''n'', JNum 7)]"
  let ?s1 = "\<lparr>this = ?c, events = ?e, trace = []\<rparr>"
  let ?s2 = "\<lparr>this = ?c, events = ?e,
              trace = [ReadText \<lparr>ok = False, status = 500, statusText = ''Error'',
                                 body_text = Inr ''no''\<rparr>]\<rparr>"
  have c: "this ?s1 = this ?s2" by simp
  have e: "events ?s1 = events ?s2" by simp
  have v: "serializable (events ?s1)" by simp
  from send_body_deterministic [OF c e v] show ?thesis
    by (simp add: Array_isArray_def QuoteJSONString_def quote_char_def string_of_int_def
          string_of_nat.simps digit_char_def)
qed

text \<open>
  C8. A call of \<^verbatim>\<open>send\<close> changes nothing but the trace. The client object has the
  same URL, token and fetch function afterwards; the event data the caller passed is
  what it was; the trace is the old one with the effects of the call appended. The state
  after the call holds the events nowhere but where the caller put them, and a request
  carries strings only, the serialised body among them: nothing retains the events.
\<close>

theorem send_frame:
  "this (snd (send s)) = this s
   \<and> events (snd (send s)) = events s
   \<and> trace (snd (send s)) = trace s @ new_effects s
   \<and> snd (send s) = s\<lparr>trace := trace s @ new_effects s\<rparr>"
proof -
  have "snd (send s) = s\<lparr>trace := trace s @ new_effects s\<rparr>" by (rule send_state)
  moreover from this have "this (snd (send s)) = this s" by simp
  moreover from calculation(1) have "events (snd (send s)) = events s" by simp
  moreover from calculation(1) have "trace (snd (send s)) = trace s @ new_effects s" by simp
  ultimately show ?thesis by blast
qed

text \<open>
  C9. \<^verbatim>\<open>send\<close> does not look at what an event contains. For every object, whatever
  its keys, the request issued and the way the call settles are determined by the
  serialisation of the one-element array and by the transport alone: one POST whose body
  is that serialisation (none when serialisation throws), and then the transport's
  answer decides, by the same rule as for any other event. An object with no
  \<^verbatim>\<open>type\<close> key is sent with the body \<^verbatim>\<open>[{}]\<close>, one whose \<^verbatim>\<open>type\<close> is the empty
  string with the body \<^verbatim>\<open>[{"type":""}]\<close>.
\<close>

theorem send_no_event_validation:
  fixes s :: "'x state"
  shows "requests (new_effects (s\<lparr>events := JObj kvs\<rparr>)) =
           (case (JSON_stringify (JArr [JObj kvs]) :: 'x thrown + string option) of
              Inl e \<Rightarrow> []
            | Inr body \<Rightarrow>
                [\<lparr>req_url = url (this s), req_method = ''POST'',
                  req_headers = [(''Content-Type'', ''application/json''),
                                 (''Authorization'', ''Bearer '' @ token (this s))],
                  req_body = body\<rparr>])
       \<and> fst (send (s\<lparr>events := JObj kvs\<rparr>)) =
           (case JSON_stringify (JArr [JObj kvs]) of
              Inl e \<Rightarrow> Inl e
            | Inr body \<Rightarrow>
                (case fetchFn (this s)
                        \<lparr>req_url = url (this s), req_method = ''POST'',
                         req_headers = [(''Content-Type'', ''application/json''),
                                        (''Authorization'', ''Bearer '' @ token (this s))],
                         req_body = body\<rparr> (trace s) of
                   Inl e \<Rightarrow> Inl e
                 | Inr r \<Rightarrow>
                     if ok r then Inr r
                     else (case body_text r of
                             Inl e \<Rightarrow> Inl e
                           | Inr errorBody \<Rightarrow>
                               Inl (Error (''Failed to send event(s): ''
                                           @ string_of_nat (status r) @ '' ''
                                           @ statusText r @ '' - '' @ errorBody)))))
       \<and> map req_body (requests (new_effects (s\<lparr>events := JObj []\<rparr>))) = [Some ''[{}]'']
       \<and> map req_body (requests (new_effects (s\<lparr>events := JObj [(''type'', JStr [])]\<rparr>)))
           = [Some (''[{'' @ [CHR 0x22] @ ''type'' @ [CHR 0x22] @ '':'' @ [CHR 0x22, CHR 0x22]
                    @ ''}]'')]"
proof (intro conjI)
  show "requests (new_effects (s\<lparr>events := JObj kvs\<rparr>)) =
           (case (JSON_stringify (JArr [JObj kvs]) :: 'x thrown + string option) of
              Inl e \<Rightarrow> []
            | Inr body \<Rightarrow>
                [\<lparr>req_url = url (this s), req_method = ''POST'',
                  req_headers = [(''Content-Type'', ''application/json''),
                                 (''Authorization'', ''Bearer '' @ token (this s))],
                  req_body = body\<rparr>])"
    by (simp add: requests_new_effects Array_isArray_def post_request_def
          del: JSON_stringify.simps cong: sum.case_cong)
  show "fst (send (s\<lparr>events := JObj kvs\<rparr>)) =
           (case JSON_stringify (JArr [JObj kvs]) of
              Inl e \<Rightarrow> Inl e
            | Inr body \<Rightarrow>
                (case fetchFn (this s)
                        \<lparr>req_url = url (this s), req_method = ''POST'',
                         req_headers = [(''Content-Type'', ''application/json''),
                                        (''Authorization'', ''Bearer '' @ token (this s))],
                         req_body = body\<rparr> (trace s) of
                   Inl e \<Rightarrow> Inl e
                 | Inr r \<Rightarrow>
                     if ok r then Inr r
                     else (case body_text r of
                             Inl e \<Rightarrow> Inl e
                           | Inr errorBody \<Rightarrow>
                               Inl (Error (''Failed to send event(s): ''
                                           @ string_of_nat (status r) @ '' ''
                                           @ statusText r @ '' - '' @ errorBody)))))"
    by (simp add: send_def Let_def Array_isArray_def post_request_def
          del: JSON_stringify.simps split: sum.splits)
  show "map req_body (requests (new_effects (s\<lparr>events := JObj []\<rparr>))) = [Some ''[{}]'']"
    by (simp add: requests_new_effects Array_isArray_def post_request_def)
  show "map req_body (requests (new_effects (s\<lparr>events := JObj [(''type'', JStr [])]\<rparr>)))
           = [Some (''[{'' @ [CHR 0x22] @ ''type'' @ [CHR 0x22] @ '':'' @ [CHR 0x22, CHR 0x22]
                    @ ''}]'')]"
    by (simp add: requests_new_effects Array_isArray_def QuoteJSONString_def quote_char_def
          post_request_def)
qed

text \<open>
  The theorem at an object with no \<^verbatim>\<open>type\<close> and at one with an empty \<^verbatim>\<open>type\<close>, sent
  through a transport that answers 200: the bodies are as said and both calls resolve to
  the response.
\<close>

theorem send_no_event_validation_witness:
  "map req_body (requests (new_effects
      \<lparr>this = \<lparr>url = ''u'', token = ''t'',
                fetchFn = (\<lambda>q h. Inr \<lparr>ok = True, status = 200, statusText = ''OK'',
                                        body_text = Inr ''ok''\<rparr>)\<rparr>,
       events = JObj [(''value'', JNum 42)], trace = ([] :: string effect list)\<rparr>))
     = [Some (''[{'' @ [CHR 0x22] @ ''value'' @ [CHR 0x22] @ '':42}]'')]
   \<and> fst (send
      \<lparr>this = \<lparr>url = ''u'', token = ''t'',
                fetchFn = (\<lambda>q h. Inr \<lparr>ok = True, status = 200, statusText = ''OK'',
                                        body_text = Inr ''ok''\<rparr>)\<rparr>,
       events = JObj [(''value'', JNum 42)], trace = ([] :: string effect list)\<rparr>)
     = Inr \<lparr>ok = True, status = 200, statusText = ''OK'', body_text = Inr ''ok''\<rparr>
   \<and> map req_body (requests (new_effects
      \<lparr>this = \<lparr>url = ''u'', token = ''t'',
                fetchFn = (\<lambda>q h. Inr \<lparr>ok = True, status = 200, statusText = ''OK'',
                                        body_text = Inr ''ok''\<rparr>)\<rparr>,
       events = JObj [(''type'', JStr [])], trace = ([] :: string effect list)\<rparr>))
     = [Some (''[{'' @ [CHR 0x22] @ ''type'' @ [CHR 0x22] @ '':'' @ [CHR 0x22, CHR 0x22]
              @ ''}]'')]
   \<and> fst (send
      \<lparr>this = \<lparr>url = ''u'', token = ''t'',
                fetchFn = (\<lambda>q h. Inr \<lparr>ok = True, status = 200, statusText = ''OK'',
                                        body_text = Inr ''ok''\<rparr>)\<rparr>,
       events = JObj [(''type'', JStr [])], trace = ([] :: string effect list)\<rparr>)
     = Inr \<lparr>ok = True, status = 200, statusText = ''OK'', body_text = Inr ''ok''\<rparr>"
  using
    send_no_event_validation
      [where s = "\<lparr>this = \<lparr>url = ''u'', token = ''t'',
                fetchFn = (\<lambda>q h. Inr \<lparr>ok = True, status = 200, statusText = ''OK'',
                                        body_text = Inr ''ok''\<rparr>)\<rparr>,
       events = JNull, trace = ([] :: string effect list)\<rparr>"
         and kvs = "[(''value'', JNum 42)]"]
    send_no_event_validation
      [where s = "\<lparr>this = \<lparr>url = ''u'', token = ''t'',
                fetchFn = (\<lambda>q h. Inr \<lparr>ok = True, status = 200, statusText = ''OK'',
                                        body_text = Inr ''ok''\<rparr>)\<rparr>,
       events = JNull, trace = ([] :: string effect list)\<rparr>"
         and kvs = "[(''type'', JStr [])]"]
  by (simp add: QuoteJSONString_def quote_char_def string_of_int_def
        string_of_nat.simps digit_char_def)

text \<open>
  C10. \<^verbatim>\<open>null\<close> and \<^verbatim>\<open>undefined\<close> are not arrays, so each is wrapped into a
  one-element array, which serialises to \<^verbatim>\<open>[null]\<close>; for each, exactly one request is
  issued, a POST with the body \<^verbatim>\<open>[null]\<close>, and how the call settles is decided by the
  transport's answer to it, as for any other input. No validation error is raised by
  the client.
\<close>

theorem send_null_is_wrapped:
  fixes s :: "'x state"
  shows "\<not> Array_isArray JNull \<and> \<not> Array_isArray JUndefined
       \<and> (JSON_stringify (JArr [JNull]) :: 'x thrown + string option) = Inr (Some ''[null]'')
       \<and> (JSON_stringify (JArr [JUndefined]) :: 'x thrown + string option) = Inr (Some ''[null]'')
       \<and> requests (new_effects (s\<lparr>events := JNull\<rparr>))
           = [\<lparr>req_url = url (this s), req_method = ''POST'',
               req_headers = [(''Content-Type'', ''application/json''),
                              (''Authorization'', ''Bearer '' @ token (this s))],
               req_body = Some ''[null]''\<rparr>]
       \<and> requests (new_effects (s\<lparr>events := JUndefined\<rparr>))
           = [\<lparr>req_url = url (this s), req_method = ''POST'',
               req_headers = [(''Content-Type'', ''application/json''),
                              (''Authorization'', ''Bearer '' @ token (this s))],
               req_body = Some ''[null]''\<rparr>]
       \<and> fst (send (s\<lparr>events := JNull\<rparr>)) =
           (case fetchFn (this s)
                   \<lparr>req_url = url (this s), req_method = ''POST'',
                    req_headers = [(''Content-Type'', ''application/json''),
                                   (''Authorization'', ''Bearer '' @ token (this s))],
                    req_body = Some ''[null]''\<rparr> (trace s) of
              Inl e \<Rightarrow> Inl e
            | Inr r \<Rightarrow>
                if ok r then Inr r
                else (case body_text r of
                        Inl e \<Rightarrow> Inl e
                      | Inr errorBody \<Rightarrow>
                          Inl (Error (''Failed to send event(s): '' @ string_of_nat (status r)
                                      @ '' '' @ statusText r @ '' - '' @ errorBody))))
       \<and> fst (send (s\<lparr>events := JUndefined\<rparr>)) =
           (case fetchFn (this s)
                   \<lparr>req_url = url (this s), req_method = ''POST'',
                    req_headers = [(''Content-Type'', ''application/json''),
                                   (''Authorization'', ''Bearer '' @ token (this s))],
                    req_body = Some ''[null]''\<rparr> (trace s) of
              Inl e \<Rightarrow> Inl e
            | Inr r \<Rightarrow>
                if ok r then Inr r
                else (case body_text r of
                        Inl e \<Rightarrow> Inl e
                      | Inr errorBody \<Rightarrow>
                          Inl (Error (''Failed to send event(s): '' @ string_of_nat (status r)
                                      @ '' '' @ statusText r @ '' - '' @ errorBody))))"
  by (simp add: requests_new_effects Array_isArray_def post_request_def send_def Let_def
        split: sum.splits)

text \<open>
  The theorem at \<^verbatim>\<open>null\<close> and at \<^verbatim>\<open>undefined\<close>, sent through a transport that
  answers 200: the body is \<^verbatim>\<open>[null]\<close> and the call resolves to the response.
\<close>

theorem send_null_is_wrapped_witness:
  "map req_body (requests (new_effects
      \<lparr>this = \<lparr>url = ''u'', token = ''t'',
                fetchFn = (\<lambda>q h. Inr \<lparr>ok = True, status = 200, statusText = ''OK'',
                                        body_text = Inr ''ok''\<rparr>)\<rparr>,
       events = JNull, trace = ([] :: string effect list)\<rparr>)) = [Some ''[null]'']
   \<and> fst (send
      \<lparr>this = \<lparr>url = ''u'', token = ''t'',
                fetchFn = (\<lambda>q h. Inr \<lparr>ok = True, status = 200, statusText = ''OK'',
                                        body_text = Inr ''ok''\<rparr>)\<rparr>,
       events = JNull, trace = ([] :: string effect list)\<rparr>)
     = Inr \<lparr>ok = True, status = 200, statusText = ''OK'', body_text = Inr ''ok''\<rparr>
   \<and> map req_body (requests (new_effects
      \<lparr>this = \<lparr>url = ''u'', token = ''t'',
                fetchFn = (\<lambda>q h. Inr \<lparr>ok = True, status = 200, statusText = ''OK'',
                                        body_text = Inr ''ok''\<rparr>)\<rparr>,
       events = JUndefined, trace = ([] :: string effect list)\<rparr>)) = [Some ''[null]'']
   \<and> fst (send
      \<lparr>this = \<lparr>url = ''u'', token = ''t'',
                fetchFn = (\<lambda>q h. Inr \<lparr>ok = True, status = 200, statusText = ''OK'',
                                        body_text = Inr ''ok''\<rparr>)\<rparr>,
       events = JUndefined, trace = ([] :: string effect list)\<rparr>)
     = Inr \<lparr>ok = True, status = 200, statusText = ''OK'', body_text = Inr ''ok''\<rparr>"
  using
    send_null_is_wrapped
      [of "\<lparr>this = \<lparr>url = ''u'', token = ''t'',
                fetchFn = (\<lambda>q h. Inr \<lparr>ok = True, status = 200, statusText = ''OK'',
                                        body_text = Inr ''ok''\<rparr>)\<rparr>,
       events = JArr [], trace = ([] :: string effect list)\<rparr>"]
  by simp

end
